theory Spec2Isabelle
  imports Complex_Main
begin

section \<open>Voronoi mesh splitting: the tessellation engine of \<open>mesh_voronoi.py\<close>\<close>

text \<open>
  The development embeds \<open>voronoi_tessellate_mesh\<close>. Python floats are idealised as
  real numbers, NumPy arrays are lists of rows, and the geometry libraries the function
  calls (trimesh, SciPy/Qhull, the boolean engine) are parameters: the input mesh is a
  record of what the function reads from it, and the library operations are the fields
  of a record. The pseudo-random generator is a stream of numbers in the unit interval,
  read from a position that is part of the state. Everything the function prints is
  appended to the state as well.
\<close>

subsection \<open>Vectors and NumPy arrays\<close>

type_synonym vec3 = "real \<times> real \<times> real"

fun vadd :: "vec3 \<Rightarrow> vec3 \<Rightarrow> vec3" where
  "vadd (x1, y1, z1) (x2, y2, z2) = (x1 + x2, y1 + y2, z1 + z2)"

fun vsub :: "vec3 \<Rightarrow> vec3 \<Rightarrow> vec3" where
  "vsub (x1, y1, z1) (x2, y2, z2) = (x1 - x2, y1 - y2, z1 - z2)"

fun vmul :: "vec3 \<Rightarrow> vec3 \<Rightarrow> vec3" where
  "vmul (x1, y1, z1) (x2, y2, z2) = (x1 * x2, y1 * y2, z1 * z2)"

fun vscale :: "real \<Rightarrow> vec3 \<Rightarrow> vec3" where
  "vscale c (x, y, z) = (c * x, c * y, c * z)"

text \<open>\<open>center - half\<close> and \<open>center + half\<close>: a scalar broadcast over the three axes.\<close>

fun vshift :: "vec3 \<Rightarrow> real \<Rightarrow> vec3" where
  "vshift (x, y, z) h = (x + h, y + h, z + h)"

fun np_dot :: "vec3 \<Rightarrow> vec3 \<Rightarrow> real" where
  "np_dot (x1, y1, z1) (x2, y2, z2) = x1 * x2 + y1 * y2 + z1 * z2"

definition np_linalg_norm :: "vec3 \<Rightarrow> real" where
  "np_linalg_norm v = sqrt (np_dot v v)"

fun np_max :: "vec3 \<Rightarrow> real" where
  "np_max (x, y, z) = max x (max y z)"

text \<open>\<open>np.finfo(float).eps\<close> for IEEE double precision.\<close>

definition mach :: real where
  "mach = 1 / 2 ^ 52"

datatype error = ValueError string | QhullError | LibraryError

text \<open>
  An array is one-dimensional or a list of rows. \<open>np.asarray\<close> of a Python list of
  four-element rows is two-dimensional, except that the empty list gives the
  one-dimensional array of shape \<open>(0,)\<close>.
\<close>

datatype ndarray = Arr1 "real list" | Arr2 "real list list"

definition np_asarray :: "real list list \<Rightarrow> ndarray" where
  "np_asarray rows = (if rows = [] then Arr1 [] else Arr2 rows)"

fun atleast_2d :: "ndarray \<Rightarrow> real list list" where
  "atleast_2d (Arr1 v) = [v]"
| "atleast_2d (Arr2 rows) = rows"

definition ncols :: "real list list \<Rightarrow> nat" where
  "ncols rows = (case rows of [] \<Rightarrow> 0 | r # _ \<Rightarrow> length r)"

text \<open>
  \<open>np.vstack\<close> lifts both operands to two dimensions and concatenates them along the
  first axis, which raises \<open>ValueError\<close> unless the row lengths agree.
\<close>

definition np_vstack :: "ndarray \<Rightarrow> ndarray \<Rightarrow> error + real list list" where
  "np_vstack a b =
     (let A = atleast_2d a; B = atleast_2d b
      in if ncols A = ncols B then Inr (A @ B)
         else Inl (ValueError ''all the input array dimensions except for the concatenation axis must match exactly''))"

subsection \<open>Half-spaces\<close>

text \<open>A row \<open>[a_x, a_y, a_z, d]\<close> stands for the inequality \<open>a_x x + a_y y + a_z z + d <= 0\<close>.\<close>

fun hs_holds :: "real list \<Rightarrow> vec3 \<Rightarrow> bool" where
  "hs_holds [a, b, c, d] (x, y, z) = (a * x + b * y + c * z + d \<le> 0)"
| "hs_holds _ _ = False"

subsection \<open>The input mesh, the libraries and the state\<close>

text \<open>
  What the function reads from \<open>solid_mesh\<close>: \<open>split(only_watertight=False)\<close>,
  \<open>is_watertight\<close>, \<open>bounds\<close> (minimum and maximum corner), \<open>centroid\<close> and
  \<open>contains\<close> (applied pointwise). \<open>'m\<close> is the type of trimesh objects. The mesh
  is taken to have vertices, so that its bounds exist.
\<close>

record 'm solid =
  split_shells :: "'m list"
  is_watertight :: bool
  bounds :: "vec3 \<times> vec3"
  centroid :: vec3
  contains :: "vec3 \<Rightarrow> bool"

text \<open>
  The library calls of the cell loop. \<open>qhull\<close> is the Qhull run behind
  \<open>HalfspaceIntersection(...).intersections\<close>, \<open>convex_hull\<close> is
  \<open>trimesh.convex.convex_hull\<close>, \<open>intersection\<close> is
  \<open>cell_poly.intersection(shell, engine="manifold")\<close>, which may raise, return
  \<open>None\<close> or return a mesh. A raised exception is \<open>Inl\<close>. The calls the source
  makes outside every \<open>try\<close> (\<open>is_empty\<close>, \<open>trimesh.util.concatenate\<close>, the
  finiteness test of \<open>volume\<close>) are taken to return.
\<close>

record 'm lib =
  qhull :: "real list list \<Rightarrow> vec3 \<Rightarrow> error + vec3 list"
  convex_hull :: "vec3 list \<Rightarrow> error + 'm"
  intersection :: "'m \<Rightarrow> 'm \<Rightarrow> error + 'm option"
  is_empty :: "'m \<Rightarrow> bool"
  concatenate :: "'m list \<Rightarrow> 'm"
  volume_isfinite :: "'m \<Rightarrow> bool"

text \<open>
  \<open>HalfspaceIntersection(halfspaces, interior_point)\<close>: as the source notes before the
  call, the interior point must satisfy all inequalities; Qhull rejects a point that
  violates one. Otherwise the outcome is the library's.
\<close>

definition HalfspaceIntersection :: "'m lib \<Rightarrow> real list list \<Rightarrow> vec3 \<Rightarrow> error + vec3 list" where
  "HalfspaceIntersection L halfspaces interior_point =
     (if list_all (\<lambda>h. hs_holds h interior_point) halfspaces
      then qhull L halfspaces interior_point
      else Inl QhullError)"

text \<open>The lines the function prints, in the order of the source.\<close>

datatype message =
    NoticeShells nat          \<comment> \<open>Notice: mesh contains k shells. ...\<close>
  | AttentionNotWatertight    \<comment> \<open>Attention: input mesh is not watertight. ...\<close>
  | Started                   \<comment> \<open>Voronoi tessellation started (half-space bounded).\<close>
  | TargetCells int           \<comment> \<open>Target number of cells: N\<close>
  | Sampling                  \<comment> \<open>Sampling seed points inside mesh volume ...\<close>
  | PreparingBox              \<comment> \<open>Preparing bounding box constraints...\<close>
  | Constructing              \<comment> \<open>Constructing and clipping Voronoi cells...\<close>
  | Processing nat nat        \<comment> \<open>Processing cell i+1/N...\<close>
  | HalfspaceFailed           \<comment> \<open>Half-space intersection failed; skipped.\<close>
  | Degenerate                \<comment> \<open>Degenerate cell (too few vertices); skipped.\<close>
  | HullFailed                \<comment> \<open>Convex hull construction failed; skipped.\<close>
  | Discarded nat             \<comment> \<open>Warning: Voronoi cell i+1 discarded (does not intersect any shell).\<close>
  | NearZeroVolume nat        \<comment> \<open>Notice: Voronoi cell i+1 has near-zero volume ...\<close>
  | Completed nat             \<comment> \<open>Voronoi tessellation completed: k cells generated.\<close>

record state =
  printed :: "message list"
  rng_pos :: nat

definition print :: "message list \<Rightarrow> state \<Rightarrow> state" where
  "print ms st = st\<lparr>printed := printed st @ ms\<rparr>"

subsection \<open>Step 1: rejection sampling\<close>

text \<open>\<open>np.random.rand(rows, 3)\<close> reads \<open>3 * rows\<close> numbers of the stream.\<close>

definition np_random_rand :: "(nat \<Rightarrow> real) \<Rightarrow> nat \<Rightarrow> nat \<Rightarrow> vec3 list \<times> nat" where
  "np_random_rand rnd rows pos =
     (map (\<lambda>r. (rnd (pos + 3 * r), rnd (pos + 3 * r + 1), rnd (pos + 3 * r + 2))) [0..<rows],
      pos + 3 * rows)"

text \<open>
  One batch of candidates: \<open>number_of_cells * 5\<close> random points of the unit cube,
  mapped into the bounding box.
\<close>

definition draw_candidates :: "'m solid \<Rightarrow> (nat \<Rightarrow> real) \<Rightarrow> nat \<Rightarrow> nat \<Rightarrow> vec3 list \<times> nat" where
  "draw_candidates mesh rnd n pos =
     (let box_min = fst (bounds mesh);
          box_size = vsub (snd (bounds mesh)) (fst (bounds mesh));
          drawn = np_random_rand rnd (n * 5) pos
      in (map (\<lambda>u. vadd box_min (vmul u box_size)) (fst drawn), snd drawn))"

text \<open>
  The \<open>while len(seed_points) < number_of_cells\<close> loop. It has no retry bound, so it
  is a partial function: \<open>None\<close> is the run that never leaves the loop.
\<close>

partial_function (option) sample_loop ::
  "'m solid \<Rightarrow> (nat \<Rightarrow> real) \<Rightarrow> nat \<Rightarrow> vec3 list \<Rightarrow> nat \<Rightarrow> (vec3 list \<times> nat) option" where
  "sample_loop mesh rnd n seed_points pos =
     (if length seed_points < n then
        (let drawn = draw_candidates mesh rnd n pos;
             candidates = fst drawn
         in sample_loop mesh rnd n
              (if list_ex (contains mesh) candidates
               then seed_points @ filter (contains mesh) candidates
               else seed_points)
              (snd drawn))
      else Some (seed_points, pos))"

subsection \<open>Step 2: the bounding box as half-spaces\<close>

definition aabb_halfspaces :: "vec3 \<Rightarrow> real \<Rightarrow> real list list" where
  "aabb_halfspaces center half =
     (case vshift center (- half) of (xmin, ymin, zmin) \<Rightarrow>
      case vshift center half of (xmax, ymax, zmax) \<Rightarrow>
        [[1, 0, 0, - xmax],
         [- 1, 0, 0, xmin],
         [0, 1, 0, - ymax],
         [0, - 1, 0, ymin],
         [0, 0, 1, - zmax],
         [0, 0, - 1, zmin]])"

subsection \<open>Step 3: one cell per seed\<close>

text \<open>The inner loop \<open>for j in range(number_of_cells)\<close>, appending to \<open>hs\<close>.\<close>

fun bisector_loop :: "vec3 list \<Rightarrow> nat \<Rightarrow> real \<Rightarrow> nat list \<Rightarrow> real list list \<Rightarrow> real list list" where
  "bisector_loop seeds i max_extent [] hs = hs"
| "bisector_loop seeds i max_extent (j # js) hs =
     (if j = i then bisector_loop seeds i max_extent js hs
      else
        (let p_i = seeds ! i;
             p_j = seeds ! j;
             a = vscale 2 (vsub p_j p_i);
             d = - (np_dot p_j p_j - np_dot p_i p_i);
             scale = np_linalg_norm a * max_extent + \<bar>d\<bar>;
             eps = 10000 * mach * scale
         in bisector_loop seeds i max_extent js
              (hs @ [[fst a, fst (snd a), snd (snd a), d - eps]])))"

text \<open>The loop \<open>for shell in shells\<close>, appending to \<open>clipped_parts\<close>.\<close>

fun clip_shells :: "'m lib \<Rightarrow> 'm \<Rightarrow> 'm list \<Rightarrow> 'm list \<Rightarrow> 'm list" where
  "clip_shells L cell_poly [] clipped_parts = clipped_parts"
| "clip_shells L cell_poly (shell # shells) clipped_parts =
     (case intersection L cell_poly shell of
        Inl _ \<Rightarrow> clip_shells L cell_poly shells clipped_parts
      | Inr part \<Rightarrow>
          (case part of
             None \<Rightarrow> clip_shells L cell_poly shells clipped_parts
           | Some p \<Rightarrow>
               if \<not> is_empty L p
               then clip_shells L cell_poly shells (clipped_parts @ [p])
               else clip_shells L cell_poly shells clipped_parts))"

text \<open>
  The half-space system of cell \<open>i\<close>: the rows of \<open>hs\<close> stacked on the six rows
  of the box.
\<close>

definition cell_halfspaces ::
  "vec3 list \<Rightarrow> nat \<Rightarrow> real \<Rightarrow> real list list \<Rightarrow> nat \<Rightarrow> error + real list list" where
  "cell_halfspaces seeds n max_extent aabb i =
     (let hs = bisector_loop seeds i max_extent [0..<n] []
      in np_vstack (np_asarray hs) (Arr2 aabb))"

text \<open>
  The body of \<open>for i in range(number_of_cells)\<close>: the exception that leaves the
  function, or the cell appended to \<open>voronoi_cells\<close> (\<open>None\<close> after \<open>continue\<close>),
  and the lines printed. The seed array has exactly \<open>n\<close> rows, so no index is out of
  range.
\<close>

definition process_cell ::
  "'m lib \<Rightarrow> 'm list \<Rightarrow> vec3 list \<Rightarrow> nat \<Rightarrow> real \<Rightarrow> real list list \<Rightarrow> nat
     \<Rightarrow> (error + 'm option) \<times> message list" where
  "process_cell L shells seeds n max_extent aabb i =
     (let p_i = seeds ! i
      in case cell_halfspaces seeds n max_extent aabb i of
           Inl e \<Rightarrow> (Inl e, [Processing (i + 1) n])
         | Inr halfspaces \<Rightarrow>
            (case HalfspaceIntersection L halfspaces p_i of
               Inl _ \<Rightarrow> (Inr None, [Processing (i + 1) n, HalfspaceFailed])
             | Inr vertices \<Rightarrow>
                 if length vertices < 4
                 then (Inr None, [Processing (i + 1) n, Degenerate])
                 else
                  (case convex_hull L vertices of
                     Inl _ \<Rightarrow> (Inr None, [Processing (i + 1) n, HullFailed])
                   | Inr cell_poly \<Rightarrow>
                      (let clipped_parts = clip_shells L cell_poly shells []
                       in if clipped_parts = []
                          then (Inr None, [Processing (i + 1) n, Discarded (i + 1)])
                          else
                           (let clipped =
                                  (if length clipped_parts = 1 then clipped_parts ! 0
                                   else concatenate L clipped_parts)
                            in (Inr (Some clipped),
                                Processing (i + 1) n #
                                (if \<not> volume_isfinite L clipped
                                 then [NearZeroVolume (i + 1)] else [])))))))"

text \<open>The outer loop over the seed indices, with \<open>voronoi_cells\<close> and the output.\<close>

fun cells_loop ::
  "(nat \<Rightarrow> (error + 'm option) \<times> message list) \<Rightarrow> nat list \<Rightarrow> 'm list \<Rightarrow> message list
     \<Rightarrow> (error + 'm list) \<times> message list" where
  "cells_loop body [] voronoi_cells out = (Inr voronoi_cells, out)"
| "cells_loop body (i # is) voronoi_cells out =
     (case body i of
        (Inl e, ms) \<Rightarrow> (Inl e, out @ ms)
      | (Inr None, ms) \<Rightarrow> cells_loop body is voronoi_cells (out @ ms)
      | (Inr (Some c), ms) \<Rightarrow> cells_loop body is (voronoi_cells @ [c]) (out @ ms))"

subsection \<open>The function\<close>

definition max_extent_of :: "'m solid \<Rightarrow> real" where
  "max_extent_of mesh = np_max (vsub (snd (bounds mesh)) (fst (bounds mesh)))"

definition closure_box :: "'m solid \<Rightarrow> real \<Rightarrow> real list list" where
  "closure_box mesh aabb_scale =
     aabb_halfspaces (centroid mesh) (0.5 * aabb_scale * max_extent_of mesh)"

definition voronoi_tessellate_mesh ::
  "'m lib \<Rightarrow> (nat \<Rightarrow> real) \<Rightarrow> 'm solid \<Rightarrow> int \<Rightarrow> real \<Rightarrow> state
     \<Rightarrow> ((error + 'm list) \<times> state) option" where
  "voronoi_tessellate_mesh L rnd solid_mesh number_of_cells aabb_scale st =
     (if number_of_cells < 1
      then Some (Inl (ValueError ''number_of_cells must be >= 1''), st)
      else if aabb_scale \<le> 1
      then Some (Inl (ValueError ''aabb_scale must be > 1.0 to safely close infinite Voronoi regions.''), st)
      else
       (let shells = split_shells solid_mesh;
            n = nat number_of_cells;
            st1 = print
                   ((if length shells > 1 then [NoticeShells (length shells)]
                     else if \<not> is_watertight solid_mesh then [AttentionNotWatertight]
                     else [])
                    @ [Started, TargetCells number_of_cells, Sampling]) st
        in case sample_loop solid_mesh rnd n [] (rng_pos st1) of
             None \<Rightarrow> None
           | Some (seed_points, pos) \<Rightarrow>
              (let seed_points_array = take n seed_points;
                   st2 = print [PreparingBox, Constructing] (st1\<lparr>rng_pos := pos\<rparr>);
                   max_extent = max_extent_of solid_mesh;
                   aabb = closure_box solid_mesh aabb_scale
               in case cells_loop
                         (process_cell L shells seed_points_array n max_extent aabb)
                         [0..<n] [] []
                  of (Inl e, ms) \<Rightarrow> Some (Inl e, print ms st2)
                   | (Inr voronoi_cells, ms) \<Rightarrow>
                       Some (Inr voronoi_cells,
                             print (ms @ [Completed (length voronoi_cells)]) st2))))"

subsection \<open>The specification's notions\<close>

text \<open>
  The largest dimension of the bounding-box extent, and the bisector half-space of the
  specification: normal \<open>2 (p_j - p_i)\<close>, offset \<open>- (|p_j|\<^sup>2 - |p_i|\<^sup>2)\<close>, shifted by
  \<open>eps = 1e4 * machine_epsilon * (|a| * max_extent + |d|)\<close>.
\<close>

definition largest_extent :: "'m solid \<Rightarrow> real" where
  "largest_extent mesh =
     (case bounds mesh of ((x0, y0, z0), (x1, y1, z1)) \<Rightarrow> Max {x1 - x0, y1 - y0, z1 - z0})"

definition spec_bisector :: "vec3 \<Rightarrow> vec3 \<Rightarrow> real \<Rightarrow> real list" where
  "spec_bisector p_i p_j max_extent =
     (case (p_i, p_j) of ((xi, yi, zi), (xj, yj, zj)) \<Rightarrow>
        let ax = 2 * (xj - xi); ay = 2 * (yj - yi); az = 2 * (zj - zi);
            d = - ((xj\<^sup>2 + yj\<^sup>2 + zj\<^sup>2) - (xi\<^sup>2 + yi\<^sup>2 + zi\<^sup>2));
            eps = 10000 * mach * (sqrt (ax\<^sup>2 + ay\<^sup>2 + az\<^sup>2) * max_extent + \<bar>d\<bar>)
        in [ax, ay, az, d - eps])"

subsection \<open>Concrete inputs\<close>

text \<open>
  A watertight unit cube of one shell, a library whose calls all succeed, and the
  initial state.
\<close>

definition unit_cube :: "nat solid" where
  "unit_cube =
     \<lparr>split_shells = [0], is_watertight = True,
      bounds = ((0, 0, 0), (1, 1, 1)), centroid = (1 / 2, 1 / 2, 1 / 2),
      contains = (\<lambda>(x, y, z). 0 < x \<and> x < 1 \<and> 0 < y \<and> y < 1 \<and> 0 < z \<and> z < 1)\<rparr>"

definition toy_lib :: "nat lib" where
  "toy_lib =
     \<lparr>qhull = (\<lambda>hs p. Inr [(0, 0, 0), (1, 0, 0), (0, 1, 0), (0, 0, 1)]),
      convex_hull = (\<lambda>vs. Inr 1),
      intersection = (\<lambda>c s. Inr (Some 2)),
      is_empty = (\<lambda>m. False),
      concatenate = (\<lambda>ms. 3),
      volume_isfinite = (\<lambda>m. True)\<rparr>"

definition start :: state where
  "start = \<lparr>printed = [], rng_pos = 0\<rparr>"

subsection \<open>Notions of the sampling contract\<close>

text \<open>
  A point lies in the mesh's axis-aligned bounding box; the bounds are a minimum and a
  maximum corner; the random stream yields numbers of \<open>[0, 1)\<close>, as
  \<open>np.random.rand\<close> does; a seed is accepted when it is a candidate of some batch that
  the containment test classified as inside.
\<close>

definition in_bounds :: "'m solid \<Rightarrow> vec3 \<Rightarrow> bool" where
  "in_bounds mesh p =
     (case (bounds mesh, p) of (((x0, y0, z0), (x1, y1, z1)), (x, y, z)) \<Rightarrow>
        x0 \<le> x \<and> x \<le> x1 \<and> y0 \<le> y \<and> y \<le> y1 \<and> z0 \<le> z \<and> z \<le> z1)"

definition bounds_ordered :: "'m solid \<Rightarrow> bool" where
  "bounds_ordered mesh =
     (case bounds mesh of ((x0, y0, z0), (x1, y1, z1)) \<Rightarrow> x0 \<le> x1 \<and> y0 \<le> y1 \<and> z0 \<le> z1)"

definition unit_stream :: "(nat \<Rightarrow> real) \<Rightarrow> bool" where
  "unit_stream rnd = (\<forall>k. 0 \<le> rnd k \<and> rnd k < 1)"

definition accepted :: "'m solid \<Rightarrow> (nat \<Rightarrow> real) \<Rightarrow> nat \<Rightarrow> vec3 \<Rightarrow> bool" where
  "accepted mesh rnd n p =
     (contains mesh p \<and> (\<exists>k. p \<in> set (fst (draw_candidates mesh rnd n k))))"

text \<open>A random stream that cycles through \<open>1/8, 2/8, ..., 7/8\<close>.\<close>

definition ramp :: "nat \<Rightarrow> real" where
  "ramp k = real (k mod 7 + 1) / 8"

subsection \<open>Notions of the cell loop\<close>

text \<open>
  The cell that seed \<open>i\<close> contributes to the result, if any; and, in the words of the
  specification, the outcome of one cell: the part a shell contributes (none when the
  intersection fails, is absent or is empty), and the cell discarded with its logged
  cause or kept as the merge of the non-empty parts.
\<close>

definition cell_of ::
  "'m lib \<Rightarrow> 'm list \<Rightarrow> vec3 list \<Rightarrow> nat \<Rightarrow> real \<Rightarrow> real list list \<Rightarrow> nat \<Rightarrow> 'm option" where
  "cell_of L shells seeds n max_extent aabb i =
     (case fst (process_cell L shells seeds n max_extent aabb i) of
        Inl _ \<Rightarrow> None
      | Inr c \<Rightarrow> c)"

definition shell_part :: "'m lib \<Rightarrow> 'm \<Rightarrow> 'm \<Rightarrow> 'm option" where
  "shell_part L cell_poly shell =
     (case intersection L cell_poly shell of
        Inl _ \<Rightarrow> None
      | Inr None \<Rightarrow> None
      | Inr (Some p) \<Rightarrow> if is_empty L p then None else Some p)"

datatype 'm outcome = Discard message | Keep 'm

definition spec_cell :: "'m lib \<Rightarrow> 'm list \<Rightarrow> real list list \<Rightarrow> vec3 \<Rightarrow> nat \<Rightarrow> 'm outcome" where
  "spec_cell L shells halfspaces seed i =
     (case HalfspaceIntersection L halfspaces seed of
        Inl _ \<Rightarrow> Discard HalfspaceFailed
      | Inr vertices \<Rightarrow>
          if length vertices < 4 then Discard Degenerate
          else
           (case convex_hull L vertices of
              Inl _ \<Rightarrow> Discard HullFailed
            | Inr cell_poly \<Rightarrow>
               (let parts = List.map_filter (shell_part L cell_poly) shells
                in if parts = [] then Discard (Discarded (i + 1))
                   else Keep (if length parts = 1 then parts ! 0 else concatenate L parts))))"

text \<open>
  A flat open square, which encloses no volume, and a library whose every call fails.
\<close>

definition open_sheet :: "nat solid" where
  "open_sheet =
     \<lparr>split_shells = [0], is_watertight = False,
      bounds = ((0, 0, 0), (1, 1, 0)), centroid = (1 / 2, 1 / 2, 0),
      contains = (\<lambda>p. False)\<rparr>"


subsection \<open>Notions of the geometric claims\<close>

text \<open>
  The Voronoi condition of the source's comment, \<open>|x - p_i|\<^sup>2 <= |x - p_j|\<^sup>2\<close>, and the
  exact bisector half-space \<open>a.x + d <= 0\<close> without the epsilon shift.
\<close>

definition nearer :: "vec3 \<Rightarrow> vec3 \<Rightarrow> vec3 \<Rightarrow> bool" where
  "nearer p_i p_j x = (np_dot (vsub x p_i) (vsub x p_i) \<le> np_dot (vsub x p_j) (vsub x p_j))"

definition exact_bisector :: "vec3 \<Rightarrow> vec3 \<Rightarrow> real list" where
  "exact_bisector p_i p_j =
     (let a = vscale 2 (vsub p_j p_i);
          d = - (np_dot p_j p_j - np_dot p_i p_i)
      in [fst a, fst (snd a), snd (snd a), d])"

text \<open>
  A mesh of two shells: a cube of side 8 at the origin and a unit cube at the far
  corner. Its area-weighted centroid is \<open>(384 * 4 + 6 * 9.5) / 390 = 531 / 130\<close> on
  each axis.
\<close>

definition two_cubes :: "nat solid" where
  "two_cubes =
     \<lparr>split_shells = [0, 1], is_watertight = True,
      bounds = ((0, 0, 0), (10, 10, 10)),
      centroid = (531 / 130, 531 / 130, 531 / 130),
      contains = (\<lambda>(x, y, z).
         (0 < x \<and> x < 8 \<and> 0 < y \<and> y < 8 \<and> 0 < z \<and> z < 8) \<or>
         (9 < x \<and> x < 10 \<and> 9 < y \<and> y < 10 \<and> 9 < z \<and> z < 10))\<rparr>"

section \<open>Configuration validation\<close>

text \<open>
  Claim C6. A call with \<open>number_of_cells < 1\<close> or \<open>aabb_scale <= 1.0\<close> raises the
  configuration error (Python's \<open>ValueError\<close>) before any work starts: whatever the
  mesh, the libraries and the random stream are, the outcome is the error alone, nothing
  has been printed and no random number has been drawn.
\<close>

theorem config_rejected_before_work:
  assumes "number_of_cells < 1 \<or> aabb_scale \<le> 1"
  shows "voronoi_tessellate_mesh L rnd solid_mesh number_of_cells aabb_scale st =
           Some (Inl (ValueError
                  (if number_of_cells < 1 then ''number_of_cells must be >= 1''
                   else ''aabb_scale must be > 1.0 to safely close infinite Voronoi regions.'')),
                 st)"
  using assms by (auto simp: voronoi_tessellate_mesh_def)

theorem config_rejected_before_work_witness:
  "((0::int) < 1 \<or> (2::real) \<le> 1) \<and>
   voronoi_tessellate_mesh toy_lib ramp unit_cube 0 2 start =
     Some (Inl (ValueError ''number_of_cells must be >= 1''), start) \<and>
   ((3::int) < 1 \<or> (1::real) \<le> 1) \<and>
   voronoi_tessellate_mesh toy_lib ramp unit_cube 3 1 start =
     Some (Inl (ValueError ''aabb_scale must be > 1.0 to safely close infinite Voronoi regions.''),
           start)"
proof -
  have a: "(0::int) < 1 \<or> (2::real) \<le> 1" by simp
  have b: "(3::int) < 1 \<or> (1::real) \<le> 1" by simp
  show ?thesis
    using a b config_rejected_before_work [OF a, of toy_lib ramp unit_cube start]
      config_rejected_before_work [OF b, of toy_lib ramp unit_cube start]
    by simp
qed

section \<open>The bisector system\<close>

lemma max_extent_of_largest: "max_extent_of mesh = largest_extent mesh"
  by (cases "bounds mesh") (auto simp: max_extent_of_def largest_extent_def split: prod.splits)

lemma bisector_row_spec:
  "(let p_i = p; p_j = q; a = vscale 2 (vsub p_j p_i);
        d = - (np_dot p_j p_j - np_dot p_i p_i);
        scale = np_linalg_norm a * mx + \<bar>d\<bar>;
        eps = 10000 * mach * scale
    in [fst a, fst (snd a), snd (snd a), d - eps]) = spec_bisector p q mx"
  by (cases p; cases q)
     (simp add: spec_bisector_def Let_def np_linalg_norm_def power2_eq_square)

lemma bisector_loop_map:
  "bisector_loop seeds i mx js hs =
     hs @ map (\<lambda>j. spec_bisector (seeds ! i) (seeds ! j) mx) (filter (\<lambda>j. j \<noteq> i) js)"
proof (induction js arbitrary: hs)
  case Nil
  then show ?case by simp
next
  case (Cons j js)
  show ?case
  proof (cases "j = i")
    case True
    then show ?thesis using Cons.IH by simp
  next
    case False
    have "bisector_loop seeds i mx (j # js) hs =
        bisector_loop seeds i mx js (hs @ [spec_bisector (seeds ! i) (seeds ! j) mx])"
      using False bisector_row_spec [of "seeds ! i" "seeds ! j" mx] by (simp add: Let_def)
    then show ?thesis using False Cons.IH by simp
  qed
qed

lemma length_others: "i < n \<Longrightarrow> length (filter (\<lambda>j. j \<noteq> i) [0..<n]) = n - 1"
proof -
  assume "i < n"
  have "length (filter (\<lambda>j. j \<noteq> i) [0..<n]) = card {j. j < n \<and> j \<noteq> i}"
    by (subst distinct_length_filter) (auto intro: arg_cong[where f=card])
  also have "{j. j < n \<and> j \<noteq> i} = {..<n} - {i}" by auto
  also have "card \<dots> = n - 1" using \<open>i < n\<close> by simp
  finally show ?thesis .
qed

text \<open>
  Claim C2. For seed \<open>i\<close> of \<open>n\<close> seeds the inner loop produces exactly \<open>n - 1\<close>
  half-spaces, one per other seed \<open>j\<close> in index order, each the specification's
  bisector: normal \<open>2 (p_j - p_i)\<close>, offset \<open>d - eps\<close> with
  \<open>d = - (|p_j|\<^sup>2 - |p_i|\<^sup>2)\<close> and \<open>eps = 1e4 * machine_epsilon * (|a| * max_extent + |d|)\<close>,
  where \<open>max_extent\<close> is the largest dimension of the mesh's bounding-box extent.
\<close>

theorem bisector_system:
  assumes "i < n"
  shows "bisector_loop seeds i (max_extent_of mesh) [0..<n] [] =
           map (\<lambda>j. spec_bisector (seeds ! i) (seeds ! j) (largest_extent mesh))
               (filter (\<lambda>j. j \<noteq> i) [0..<n])
         \<and> length (bisector_loop seeds i (max_extent_of mesh) [0..<n] []) = n - 1"
  using assms by (simp add: bisector_loop_map max_extent_of_largest length_others)

theorem bisector_system_witness:
  "(1::nat) < 3 \<and>
   bisector_loop [(0, 0, 0), (1, 0, 0), (0, 2, 0)] 1 (max_extent_of unit_cube) [0..<3] [] =
     [[- 2, 0, 0, 1 - 10000 * mach * 3], [- 2, 4, 0, - 3 - 10000 * mach * (sqrt 20 + 3)]]"
proof -
  have h: "(1::nat) < 3" by simp
  have v: "map (\<lambda>j. spec_bisector ([(0, 0, 0), (1, 0, 0), (0, 2, 0)] ! 1)
                    ([(0, 0, 0), (1, 0, 0), (0, 2, 0)] ! j) (largest_extent unit_cube))
               (filter (\<lambda>j. j \<noteq> 1) [0..<3]) =
     [[- 2, 0, 0, 1 - 10000 * mach * 3], [- 2, 4, 0, - 3 - 10000 * mach * (sqrt 20 + 3)]]"
    by (simp add: spec_bisector_def largest_extent_def unit_cube_def upt_rec Let_def)
  from bisector_system [OF h, of "[(0, 0, 0), (1, 0, 0), (0, 2, 0)]" unit_cube]
  have "bisector_loop [(0, 0, 0), (1, 0, 0), (0, 2, 0)] 1 (max_extent_of unit_cube) [0..<3] [] =
        map (\<lambda>j. spec_bisector ([(0, 0, 0), (1, 0, 0), (0, 2, 0)] ! 1)
                    ([(0, 0, 0), (1, 0, 0), (0, 2, 0)] ! j) (largest_extent unit_cube))
               (filter (\<lambda>j. j \<noteq> 1) [0..<3])"
    by (rule conjunct1)
  with v h show ?thesis by (simp only: simp_thms)
qed

section \<open>Rejection sampling\<close>

lemma affine_in_range:
  fixes u lo hi :: real
  assumes "0 \<le> u" "u < 1" "lo \<le> hi"
  shows "lo \<le> lo + u * (hi - lo)" "lo + u * (hi - lo) \<le> hi"
proof -
  have "0 \<le> u * (hi - lo)" using assms by simp
  then show "lo \<le> lo + u * (hi - lo)" by simp
  have "u * (hi - lo) \<le> 1 * (hi - lo)"
    using assms by (intro mult_right_mono) auto
  then show "lo + u * (hi - lo) \<le> hi" by simp
qed

lemma candidates_in_bounds:
  assumes "unit_stream rnd" "bounds_ordered mesh"
    and "c \<in> set (fst (draw_candidates mesh rnd n pos))"
  shows "in_bounds mesh c"
proof -
  obtain x0 y0 z0 x1 y1 z1 where b: "bounds mesh = ((x0, y0, z0), (x1, y1, z1))"
    by (metis prod_cases3 surj_pair)
  from assms(3) obtain r where
    c: "c = vadd (x0, y0, z0) (vmul (rnd (pos + 3 * r), rnd (pos + 3 * r + 1), rnd (pos + 3 * r + 2))
                                (vsub (x1, y1, z1) (x0, y0, z0)))"
    by (auto simp: draw_candidates_def np_random_rand_def Let_def b)
  have o: "x0 \<le> x1" "y0 \<le> y1" "z0 \<le> z1" using assms(2) by (simp_all add: bounds_ordered_def b)
  have u: "\<And>k. 0 \<le> rnd k" "\<And>k. rnd k < 1" using assms(1) by (simp_all add: unit_stream_def)
  show ?thesis
    unfolding in_bounds_def b c
    using affine_in_range[OF u(1) u(2) o(1)] affine_in_range[OF u(1) u(2) o(2)]
      affine_in_range[OF u(1) u(2) o(3)]
    by simp
qed

lemma sample_loop_inv:
  assumes "sample_loop mesh rnd n seeds pos = Some y"
  shows "(\<forall>p\<in>set seeds. accepted mesh rnd n p)
     \<longrightarrow> n \<le> length (fst y) \<and> (\<forall>p\<in>set (fst y). accepted mesh rnd n p)"
proof (rule sample_loop.raw_induct
    [where P = "\<lambda>mesh rnd n seeds pos y. (\<forall>p\<in>set seeds. accepted mesh rnd n p)
        \<longrightarrow> n \<le> length (fst y) \<and> (\<forall>p\<in>set (fst y). accepted mesh rnd n p)", OF _ assms])
  fix f :: "'a solid \<Rightarrow> (nat \<Rightarrow> real) \<Rightarrow> nat \<Rightarrow> vec3 list \<Rightarrow> nat \<Rightarrow> (vec3 list \<times> nat) option"
    and mesh rnd n seed_points pos y
  assume IH: "\<And>mesh rnd n seeds pos y. f mesh rnd n seeds pos = Some y
      \<Longrightarrow> (\<forall>p\<in>set seeds. accepted mesh rnd n p)
        \<longrightarrow> n \<le> length (fst y) \<and> (\<forall>p\<in>set (fst y). accepted mesh rnd n p)"
    and body: "(if length seed_points < n
      then let drawn = draw_candidates mesh rnd n pos; candidates = fst drawn
           in f mesh rnd n
               (if list_ex (contains mesh) candidates
                then seed_points @ filter (contains mesh) candidates
                else seed_points)
               (snd drawn)
      else Some (seed_points, pos)) = Some y"
  show "(\<forall>p\<in>set seed_points. accepted mesh rnd n p)
     \<longrightarrow> n \<le> length (fst y) \<and> (\<forall>p\<in>set (fst y). accepted mesh rnd n p)"
  proof
    assume inv: "\<forall>p\<in>set seed_points. accepted mesh rnd n p"
    show "n \<le> length (fst y) \<and> (\<forall>p\<in>set (fst y). accepted mesh rnd n p)"
    proof (cases "length seed_points < n")
      case True
      let ?cands = "fst (draw_candidates mesh rnd n pos)"
      let ?next = "if list_ex (contains mesh) ?cands
                   then seed_points @ filter (contains mesh) ?cands else seed_points"
      from body True have call: "f mesh rnd n ?next (snd (draw_candidates mesh rnd n pos)) = Some y"
        by (simp add: Let_def)
      have "\<forall>p\<in>set ?next. accepted mesh rnd n p"
        using inv by (auto simp: accepted_def)
      with IH[OF call] show ?thesis by blast
    next
      case False
      with body inv show ?thesis by auto
    qed
  qed
qed

text \<open>
  Claim C7. Whenever the sampling loop terminates, the seed array has exactly \<open>n\<close>
  points, each of which the containment predicate classified as inside; every candidate
  of every batch, and so every seed, lies in the mesh's axis-aligned bounding box (the
  random numbers being in the unit interval and the bounds being ordered).
\<close>

theorem sampling_yields_inside_seeds:
  assumes "sample_loop mesh rnd n [] pos = Some (seed_points, pos')"
  shows "length (take n seed_points) = n
       \<and> (\<forall>p\<in>set (take n seed_points). contains mesh p)
       \<and> (unit_stream rnd \<and> bounds_ordered mesh \<longrightarrow>
            (\<forall>k. \<forall>c\<in>set (fst (draw_candidates mesh rnd n k)). in_bounds mesh c)
          \<and> (\<forall>p\<in>set (take n seed_points). in_bounds mesh p))"
proof -
  from sample_loop_inv[OF assms]
  have len: "n \<le> length seed_points" and acc: "\<forall>p\<in>set seed_points. accepted mesh rnd n p"
    by simp_all
  have sub: "set (take n seed_points) \<subseteq> set seed_points" by (rule set_take_subset)
  from len have "length (take n seed_points) = n" by simp
  moreover from acc sub have "\<forall>p\<in>set (take n seed_points). contains mesh p"
    by (auto simp: accepted_def)
  moreover have "unit_stream rnd \<and> bounds_ordered mesh \<longrightarrow>
            (\<forall>k. \<forall>c\<in>set (fst (draw_candidates mesh rnd n k)). in_bounds mesh c)
          \<and> (\<forall>p\<in>set (take n seed_points). in_bounds mesh p)"
  proof (intro impI conjI allI ballI)
    fix k c
    assume h: "unit_stream rnd \<and> bounds_ordered mesh"
      and "c \<in> set (fst (draw_candidates mesh rnd n k))"
    then show "in_bounds mesh c" using candidates_in_bounds by blast
  next
    fix p
    assume h: "unit_stream rnd \<and> bounds_ordered mesh" and "p \<in> set (take n seed_points)"
    with acc sub obtain k where "p \<in> set (fst (draw_candidates mesh rnd n k))"
      unfolding accepted_def by blast
    with h show "in_bounds mesh p" using candidates_in_bounds by blast
  qed
  ultimately show ?thesis by blast
qed

lemma unit_stream_ramp: "unit_stream ramp"
  unfolding unit_stream_def ramp_def
proof
  fix k :: nat
  have "k mod 7 < 7" by simp
  then have "real (k mod 7 + 1) < 8" by linarith
  then show "0 \<le> real (k mod 7 + 1) / 8 \<and> real (k mod 7 + 1) / 8 < 1" by simp
qed

lemma sample_cube_2:
  "sample_loop unit_cube ramp 2 [] 0 =
     Some ([(1/8, 1/4, 3/8), (1/2, 5/8, 3/4), (7/8, 1/8, 1/4), (3/8, 1/2, 5/8), (3/4, 7/8, 1/8),
            (1/4, 3/8, 1/2), (5/8, 3/4, 7/8), (1/8, 1/4, 3/8), (1/2, 5/8, 3/4), (7/8, 1/8, 1/4)], 30)"
  apply (subst sample_loop.simps)
  apply (simp add: draw_candidates_def np_random_rand_def unit_cube_def ramp_def upt_rec Let_def)
  apply (subst sample_loop.simps)
  apply simp
  done


theorem sampling_yields_inside_seeds_witness:
  "sample_loop unit_cube ramp 2 [] 0 =
     Some ([(1/8, 1/4, 3/8), (1/2, 5/8, 3/4), (7/8, 1/8, 1/4), (3/8, 1/2, 5/8), (3/4, 7/8, 1/8),
            (1/4, 3/8, 1/2), (5/8, 3/4, 7/8), (1/8, 1/4, 3/8), (1/2, 5/8, 3/4), (7/8, 1/8, 1/4)], 30)
   \<and> unit_stream ramp \<and> bounds_ordered unit_cube
   \<and> take 2 [(1/8, 1/4, 3/8), (1/2, 5/8, 3/4), (7/8, 1/8, 1/4), (3/8, 1/2, 5/8), (3/4, 7/8, 1/8),
            (1/4, 3/8, 1/2), (5/8, 3/4, 7/8), (1/8, 1/4, 3/8), (1/2, 5/8, 3/4), (7/8, 1/8, 1/4)]
       = [(1/8, 1/4, 3/8), (1/2, 5/8, 3/4 :: real)]
   \<and> contains unit_cube (1/8, 1/4, 3/8) \<and> in_bounds unit_cube (1/8, 1/4, 3/8)
   \<and> contains unit_cube (1/2, 5/8, 3/4) \<and> in_bounds unit_cube (1/2, 5/8, 3/4)"
proof -
  have o: "bounds_ordered unit_cube" by (simp add: bounds_ordered_def unit_cube_def)
  have t: "take 2 [(1/8, 1/4, 3/8), (1/2, 5/8, 3/4), (7/8, 1/8, 1/4), (3/8, 1/2, 5/8),
            (3/4, 7/8, 1/8), (1/4, 3/8, 1/2), (5/8, 3/4, 7/8), (1/8, 1/4, 3/8), (1/2, 5/8, 3/4),
            (7/8, 1/8, 1/4)] = [(1/8, 1/4, 3/8), (1/2, 5/8, 3/4 :: real)]"
    by simp
  from sampling_yields_inside_seeds [OF sample_cube_2] unit_stream_ramp o
  have "(\<forall>p\<in>set (take 2 [(1/8, 1/4, 3/8), (1/2, 5/8, 3/4), (7/8, 1/8, 1/4), (3/8, 1/2, 5/8),
            (3/4, 7/8, 1/8), (1/4, 3/8, 1/2), (5/8, 3/4, 7/8), (1/8, 1/4, 3/8), (1/2, 5/8, 3/4),
            (7/8, 1/8, 1/4 :: real)]). contains unit_cube p \<and> in_bounds unit_cube p)"
    by blast
  then have "contains unit_cube (1/8, 1/4, 3/8) \<and> in_bounds unit_cube (1/8, 1/4, 3/8)
      \<and> contains unit_cube (1/2, 5/8, 3/4) \<and> in_bounds unit_cube (1/2, 5/8, 3/4)"
    unfolding t by simp
  with sample_cube_2 unit_stream_ramp o t show ?thesis by blast
qed

section \<open>The cell loop\<close>

lemma length_spec_bisector: "length (spec_bisector p q mx) = 4"
  by (cases p; cases q) (simp add: spec_bisector_def Let_def)

lemma aabb_shape: "aabb_halfspaces c h \<noteq> []" "ncols (aabb_halfspaces c h) = 4"
  by (cases c; simp add: aabb_halfspaces_def ncols_def)+

lemma others_nonempty: "2 \<le> n \<Longrightarrow> filter (\<lambda>j. j \<noteq> i) [0..<n] \<noteq> []"
proof -
  assume n: "2 \<le> n"
  have "(if i = 0 then 1 else 0) \<in> set (filter (\<lambda>j. j \<noteq> i) [0..<n])"
    using n by auto
  then show ?thesis by (metis empty_iff empty_set)
qed

lemma cell_halfspaces_many:
  assumes "2 \<le> n"
  shows "cell_halfspaces seeds n mx (aabb_halfspaces c h) i =
           Inr (map (\<lambda>j. spec_bisector (seeds ! i) (seeds ! j) mx) (filter (\<lambda>j. j \<noteq> i) [0..<n])
                @ aabb_halfspaces c h)"
proof -
  let ?js = "filter (\<lambda>j. j \<noteq> i) [0..<n]"
  let ?hs = "map (\<lambda>j. spec_bisector (seeds ! i) (seeds ! j) mx) ?js"
  from others_nonempty[OF assms] obtain j js where js: "?js = j # js"
    by (cases ?js) auto
  have hs: "bisector_loop seeds i mx [0..<n] [] = ?hs" by (simp add: bisector_loop_map)
  have "?hs \<noteq> []" "ncols ?hs = 4"
    unfolding js by (simp_all add: ncols_def length_spec_bisector)
  then show ?thesis
    unfolding cell_halfspaces_def hs
    by (simp add: np_vstack_def np_asarray_def aabb_shape Let_def)
qed

lemma cell_halfspaces_single:
  "cell_halfspaces seeds (Suc 0) mx (aabb_halfspaces c h) 0 =
     Inl (ValueError ''all the input array dimensions except for the concatenation axis must match exactly'')"
proof -
  have "ncols [[]] = 0" by (simp add: ncols_def)
  then show ?thesis
    by (simp add: cell_halfspaces_def np_vstack_def np_asarray_def aabb_shape Let_def)
qed

lemma clip_shells_spec:
  "clip_shells L cell_poly shells parts = parts @ List.map_filter (shell_part L cell_poly) shells"
  by (induction shells arbitrary: parts)
     (auto simp: List.map_filter_simps shell_part_def split: sum.splits option.splits)

lemma process_cell_spec:
  assumes "cell_halfspaces seeds n mx aabb i = Inr H"
  shows "process_cell L shells seeds n mx aabb i =
     (case spec_cell L shells H (seeds ! i) i of
        Discard w \<Rightarrow> (Inr None, [Processing (i + 1) n, w])
      | Keep c \<Rightarrow> (Inr (Some c),
           Processing (i + 1) n # (if \<not> volume_isfinite L c then [NearZeroVolume (i + 1)] else [])))"
  using assms
  by (simp add: process_cell_def spec_cell_def clip_shells_spec Let_def
        split: sum.splits)

lemma process_cell_no_raise:
  assumes "cell_halfspaces seeds n mx aabb i = Inr H"
  shows "\<exists>ms. process_cell L shells seeds n mx aabb i = (Inr (cell_of L shells seeds n mx aabb i), ms)"
  unfolding cell_of_def process_cell_spec[OF assms]
  by (simp split: outcome.splits)

lemma cells_loop_no_raise:
  assumes "\<forall>i\<in>set is. \<exists>c ms. body i = (Inr c, ms)"
  shows "\<exists>out'. cells_loop body is cells out =
     (Inr (cells @ List.map_filter (\<lambda>i. case fst (body i) of Inl _ \<Rightarrow> None | Inr c \<Rightarrow> c) is), out')"
  using assms
proof (induction "is" arbitrary: cells out)
  case Nil
  then show ?case by (simp add: List.map_filter_simps)
next
  case (Cons i "is")
  from Cons.prems obtain c ms where b: "body i = (Inr c, ms)" by auto
  from Cons.prems have rest: "\<forall>i\<in>set is. \<exists>c ms. body i = (Inr c, ms)" by simp
  show ?case
  proof (cases c)
    case None
    with b Cons.IH[OF rest, of cells "out @ ms"] show ?thesis
      by (simp add: List.map_filter_simps)
  next
    case (Some m)
    with b Cons.IH[OF rest, of "cells @ [m]" "out @ ms"] show ?thesis
      by (simp add: List.map_filter_simps)
  qed
qed

lemma length_map_filter_le: "length (List.map_filter f xs) \<le> length xs"
  by (induction xs) (auto simp: List.map_filter_simps split: option.splits)

lemma rng_pos_print: "rng_pos (print ms st) = rng_pos st"
  by (simp add: print_def)

lemma cells_loop_closure_box:
  assumes "2 \<le> n"
  shows "\<exists>out'. cells_loop (process_cell L shells seeds n mx (closure_box mesh s)) is [] [] =
     (Inr (List.map_filter (cell_of L shells seeds n mx (closure_box mesh s)) is), out')"
proof -
  let ?body = "process_cell L shells seeds n mx (closure_box mesh s)"
  have "\<forall>i\<in>set is. \<exists>c ms. ?body i = (Inr c, ms)"
    using process_cell_no_raise[OF cell_halfspaces_many[OF assms]]
    unfolding closure_box_def by blast
  from cells_loop_no_raise[OF this, of "[]" "[]"]
  show ?thesis by (simp add: cell_of_def[abs_def])
qed

lemma sample_loop_never:
  assumes "\<forall>p. \<not> contains mesh p" "0 < n"
  shows "sample_loop mesh rnd n [] pos = None"
proof (cases "sample_loop mesh rnd n [] pos")
  case None
  then show ?thesis .
next
  case (Some y)
  from sample_loop_inv[OF this]
  have "n \<le> length (fst y)" and "\<forall>p\<in>set (fst y). accepted mesh rnd n p" by simp_all
  with assms(2) obtain p where "p \<in> set (fst y)" "accepted mesh rnd n p"
    by (cases "fst y") auto
  with assms(1) have False unfolding accepted_def by blast
  then show ?thesis ..
qed

lemma tessellation_diverges:
  assumes "1 \<le> number_of_cells" "1 < aabb_scale" "\<forall>p. \<not> contains solid_mesh p"
  shows "voronoi_tessellate_mesh L rnd solid_mesh number_of_cells aabb_scale st = None"
proof -
  have "sample_loop solid_mesh rnd (nat number_of_cells) []
          (rng_pos st) = None"
    using assms by (intro sample_loop_never) auto
  then show ?thesis using assms(1,2)
    by (simp add: voronoi_tessellate_mesh_def rng_pos_print Let_def)
qed


section \<open>Termination and the shape of the result\<close>

text \<open>
  Claim C1, as the code has it. For every mesh on which the rejection sampling
  terminates, every \<open>number_of_cells >= 2\<close> and every \<open>aabb_scale > 1\<close>, the function
  returns normally; the result holds, in the order of the seed indices, the cell of each
  seed that produced one, and so between 0 and \<open>number_of_cells\<close> cells.
\<close>

theorem tessellation_returns_cells_in_seed_order:
  assumes "2 \<le> number_of_cells" "1 < aabb_scale"
    and "sample_loop solid_mesh rnd (nat number_of_cells) [] (rng_pos st) = Some (seed_points, pos)"
  shows "\<exists>st'. voronoi_tessellate_mesh L rnd solid_mesh number_of_cells aabb_scale st =
           Some (Inr (List.map_filter
                        (cell_of L (split_shells solid_mesh)
                           (take (nat number_of_cells) seed_points) (nat number_of_cells)
                           (max_extent_of solid_mesh) (closure_box solid_mesh aabb_scale))
                        [0..<nat number_of_cells]), st')
         \<and> length (List.map_filter
                        (cell_of L (split_shells solid_mesh)
                           (take (nat number_of_cells) seed_points) (nat number_of_cells)
                           (max_extent_of solid_mesh) (closure_box solid_mesh aabb_scale))
                        [0..<nat number_of_cells]) \<le> nat number_of_cells"
proof -
  let ?n = "nat number_of_cells"
  from assms(1) have n: "2 \<le> ?n" by simp
  from cells_loop_closure_box[OF n, of L "split_shells solid_mesh" "take ?n seed_points"
      "max_extent_of solid_mesh" solid_mesh aabb_scale "[0..<?n]"]
  obtain out' where loop: "cells_loop
      (process_cell L (split_shells solid_mesh) (take ?n seed_points) ?n
         (max_extent_of solid_mesh) (closure_box solid_mesh aabb_scale)) [0..<?n] [] [] =
     (Inr (List.map_filter (cell_of L (split_shells solid_mesh) (take ?n seed_points) ?n
         (max_extent_of solid_mesh) (closure_box solid_mesh aabb_scale)) [0..<?n]), out')"
    by blast
  have "length (List.map_filter (cell_of L (split_shells solid_mesh) (take ?n seed_points) ?n
         (max_extent_of solid_mesh) (closure_box solid_mesh aabb_scale)) [0..<?n]) \<le> ?n"
    using length_map_filter_le[of _ "[0..<?n]"] by simp
  moreover have "\<exists>st'. voronoi_tessellate_mesh L rnd solid_mesh number_of_cells aabb_scale st =
           Some (Inr (List.map_filter
                        (cell_of L (split_shells solid_mesh) (take ?n seed_points) ?n
                           (max_extent_of solid_mesh) (closure_box solid_mesh aabb_scale))
                        [0..<?n]), st')"
    using assms(1,2) assms(3) loop
    by (simp add: voronoi_tessellate_mesh_def rng_pos_print Let_def)
  ultimately show ?thesis by blast
qed

theorem tessellation_returns_cells_in_seed_order_witness:
  "(2::int) \<le> 2 \<and> (1::real) < 2 \<and>
   (\<exists>st'. voronoi_tessellate_mesh toy_lib ramp unit_cube 2 2 start =
           Some (Inr (List.map_filter
                        (cell_of toy_lib (split_shells unit_cube)
                           [(1/8, 1/4, 3/8), (1/2, 5/8, 3/4)] 2
                           (max_extent_of unit_cube) (closure_box unit_cube 2))
                        [0..<2]), st'))"
proof -
  have a: "(2::int) \<le> 2" and b: "(1::real) < 2" by simp_all
  have s: "sample_loop unit_cube ramp (nat 2) [] (rng_pos start) =
     Some ([(1/8, 1/4, 3/8), (1/2, 5/8, 3/4), (7/8, 1/8, 1/4), (3/8, 1/2, 5/8), (3/4, 7/8, 1/8),
            (1/4, 3/8, 1/2), (5/8, 3/4, 7/8), (1/8, 1/4, 3/8), (1/2, 5/8, 3/4), (7/8, 1/8, 1/4)], 30)"
    using sample_cube_2 by (simp add: start_def)
  from tessellation_returns_cells_in_seed_order [OF a b s, of toy_lib]
  show ?thesis by simp
qed

text \<open>
  The claim as stated fails: on a mesh that encloses no volume the sampling loop never
  ends, so the function does not return.
\<close>

theorem tessellation_may_not_terminate:
  "voronoi_tessellate_mesh toy_lib ramp open_sheet 2 2 start = None"
  by (rule tessellation_diverges) (simp_all add: open_sheet_def)

section \<open>A single cell\<close>

lemma sample_cube_1:
  "sample_loop unit_cube ramp 1 [] 0 =
     Some ([(1/8, 1/4, 3/8), (1/2, 5/8, 3/4), (7/8, 1/8, 1/4), (3/8, 1/2, 5/8), (3/4, 7/8, 1/8)], 15)"
  apply (subst sample_loop.simps)
  apply (simp add: draw_candidates_def np_random_rand_def unit_cube_def ramp_def upt_rec Let_def)
  apply (subst sample_loop.simps)
  apply simp
  done

lemma single_cell_raises:
  assumes "1 < aabb_scale"
    and "sample_loop solid_mesh rnd 1 [] (rng_pos st) = Some (seed_points, pos)"
  shows "voronoi_tessellate_mesh L rnd solid_mesh 1 aabb_scale st =
     Some (Inl (ValueError ''all the input array dimensions except for the concatenation axis must match exactly''),
           print [PreparingBox, Constructing, Processing 1 1]
             ((print ((if length (split_shells solid_mesh) > 1
                       then [NoticeShells (length (split_shells solid_mesh))]
                       else if \<not> is_watertight solid_mesh then [AttentionNotWatertight] else [])
                      @ [Started, TargetCells 1, Sampling]) st)\<lparr>rng_pos := pos\<rparr>))"
proof -
  have "process_cell L (split_shells solid_mesh) (take 1 seed_points) 1 (max_extent_of solid_mesh)
          (closure_box solid_mesh aabb_scale) 0 =
        (Inl (ValueError ''all the input array dimensions except for the concatenation axis must match exactly''),
         [Processing 1 1])"
    by (simp add: process_cell_def closure_box_def cell_halfspaces_single)
  then show ?thesis
    using assms
    by (simp add: voronoi_tessellate_mesh_def rng_pos_print Let_def print_def)
qed

text \<open>
  Claim C5 says that a watertight cube with \<open>N = 1\<close> yields exactly one cell. The code
  raises instead: with one seed \<open>hs\<close> is empty, its array has shape \<open>(0,)\<close>, and
  \<open>np.vstack\<close> with the six box rows raises \<open>ValueError\<close> outside every \<open>try\<close>,
  whatever the libraries do.
\<close>

theorem cube_single_cell_raises:
  "voronoi_tessellate_mesh L ramp unit_cube 1 2 start =
     Some (Inl (ValueError ''all the input array dimensions except for the concatenation axis must match exactly''),
           \<lparr>printed = [Started, TargetCells 1, Sampling, PreparingBox, Constructing, Processing 1 1],
            rng_pos = 15\<rparr>)"
proof -
  have s: "sample_loop unit_cube ramp 1 [] (rng_pos start) =
     Some ([(1/8, 1/4, 3/8), (1/2, 5/8, 3/4), (7/8, 1/8, 1/4), (3/8, 1/2, 5/8), (3/4, 7/8, 1/8)], 15)"
    using sample_cube_1 by (simp add: start_def)
  have "(1::real) < 2" by simp
  from single_cell_raises [OF this s, of L]
  show ?thesis by (simp add: unit_cube_def start_def print_def)
qed

section \<open>Containment of failures\<close>


lemma upt_2: "[0..<2] = [0, Suc 0]"
  by (simp add: upt_rec)






section \<open>The direction of the epsilon shift\<close>

lemma exact_bisector_nearer: "hs_holds (exact_bisector p q) x = nearer p q x"
  by (cases p; cases q; cases x)
     (auto simp: exact_bisector_def nearer_def Let_def algebra_simps)

lemma mach_pos: "0 < mach" by (simp add: mach_def)

lemma bias_nonneg:
  assumes "0 \<le> mx"
  shows "0 \<le> 10000 * mach * (sqrt (a\<^sup>2 + b\<^sup>2 + c\<^sup>2) * mx + \<bar>d\<bar>)"
proof -
  have "0 \<le> sqrt (a\<^sup>2 + b\<^sup>2 + c\<^sup>2) * mx" using assms by simp
  then have "0 \<le> sqrt (a\<^sup>2 + b\<^sup>2 + c\<^sup>2) * mx + \<bar>d\<bar>" by simp
  with mach_pos show ?thesis by simp
qed

lemma exact_within_biased:
  assumes "0 \<le> mx" "hs_holds (exact_bisector p q) x"
  shows "hs_holds (spec_bisector p q mx) x"
proof -
  obtain xi yi zi xj yj zj u v w where
    p: "p = (xi, yi, zi)" and q: "q = (xj, yj, zj)" and x: "x = (u, v, w)"
    by (metis prod_cases3)
  let ?d = "- ((xj\<^sup>2 + yj\<^sup>2 + zj\<^sup>2) - (xi\<^sup>2 + yi\<^sup>2 + zi\<^sup>2))"
  from bias_nonneg[OF assms(1), of "2 * (xj - xi)" "2 * (yj - yi)" "2 * (zj - zi)" ?d]
  have e: "0 \<le> 10000 * mach *
      (sqrt ((2 * (xj - xi))\<^sup>2 + (2 * (yj - yi))\<^sup>2 + (2 * (zj - zi))\<^sup>2) * mx + \<bar>?d\<bar>)" .
  from assms(2) have "2 * (xj - xi) * u + 2 * (yj - yi) * v + 2 * (zj - zi) * w + ?d \<le> 0"
    by (simp add: exact_bisector_def p q x Let_def power2_eq_square)
  with e show ?thesis
    by (simp add: spec_bisector_def p q x Let_def)
qed

lemma seed_in_biased_bisector:
  assumes "0 \<le> mx"
  shows "hs_holds (spec_bisector p q mx) p"
proof -
  have "nearer p q p"
    by (cases p; cases q) (simp add: nearer_def)
  then show ?thesis using exact_within_biased[OF assms] exact_bisector_nearer by blast
qed

text \<open>
  Claim C10 says that the shifted half-space \<open>a.x + (d - eps) <= 0\<close> lies inside the exact
  one, so that the bias only shrinks cells. With a non-negative \<open>eps\<close> it is the other
  way round (\<open>exact_within_biased\<close>): subtracting \<open>eps\<close> from the offset moves the plane
  away from the seed. For the seeds \<open>(0,0,0)\<close> and \<open>(1,0,0)\<close> and \<open>max_extent = 1\<close> the
  row the code builds admits a point beyond the bisector, nearer to the other seed.
\<close>

theorem bias_shifts_outward:
  "bisector_loop [(0, 0, 0), (1, 0, 0)] 0 1 [0..<2] [] = [[2, 0, 0, - 1 - 30000 * mach]]
   \<and> hs_holds [2, 0, 0, - 1 - 30000 * mach] (1 / 2 + 7500 * mach, 0, 0)
   \<and> exact_bisector (0, 0, 0) (1, 0, 0) = [2, 0, 0, - 1]
   \<and> \<not> hs_holds [2, 0, 0, - 1] (1 / 2 + 7500 * mach, 0, 0)
   \<and> \<not> nearer (0, 0, 0) (1, 0, 0) (1 / 2 + 7500 * mach, 0, 0)"
proof -
  have "bisector_loop [(0, 0, 0), (1, 0, 0)] 0 1 [0..<2] [] = [[2, 0, 0, - 1 - 30000 * mach]]"
    by (simp add: upt_2 Let_def np_linalg_norm_def)
  moreover have "hs_holds [2, 0, 0, - 1 - 30000 * mach] (1 / 2 + 7500 * mach, 0, 0)"
    using mach_pos by simp
  moreover have "exact_bisector (0, 0, 0) (1, 0, 0) = [2, 0, 0, - 1]"
    by (simp add: exact_bisector_def)
  moreover have "\<not> hs_holds [2, 0, 0, - 1] (1 / 2 + 7500 * mach, 0, 0)"
    using mach_pos by simp
  moreover have "\<not> nearer (0, 0, 0) (1, 0, 0) (1 / 2 + 7500 * mach, 0, 0)"
    using mach_pos by (simp add: nearer_def algebra_simps)
  ultimately show ?thesis by blast
qed

section \<open>The closure box\<close>

lemma closure_box_rows:
  assumes "centroid mesh = (cx, cy, cz)"
  shows "closure_box mesh s =
     (let half = 0.5 * s * largest_extent mesh
      in [[1, 0, 0, - (cx + half)], [- 1, 0, 0, cx - half],
          [0, 1, 0, - (cy + half)], [0, - 1, 0, cy - half],
          [0, 0, 1, - (cz + half)], [0, 0, - 1, cz - half]])"
  by (simp add: closure_box_def aabb_halfspaces_def assms max_extent_of_largest Let_def)

lemma closure_box_contains_bounds:
  assumes "bounds_ordered mesh" "in_bounds mesh (centroid mesh)" "2 \<le> s" "in_bounds mesh p"
  shows "list_all (\<lambda>h. hs_holds h p) (closure_box mesh s)"
proof -
  obtain x0 y0 z0 x1 y1 z1 where b: "bounds mesh = ((x0, y0, z0), (x1, y1, z1))"
    by (metis prod_cases3 surj_pair)
  obtain cx cy cz where c: "centroid mesh = (cx, cy, cz)" by (metis prod_cases3)
  obtain x y z where p: "p = (x, y, z)" by (metis prod_cases3)
  let ?m = "max (x1 - x0) (max (y1 - y0) (z1 - z0))"
  have m: "x1 - x0 \<le> ?m" "y1 - y0 \<le> ?m" "z1 - z0 \<le> ?m" by simp_all
  have m0: "0 \<le> ?m" using assms(1) by (simp add: bounds_ordered_def b le_max_iff_disj)
  have "?m \<le> 0.5 * s * ?m"
  proof -
    have "1 * ?m \<le> (0.5 * s) * ?m" using assms(3) m0 by (intro mult_right_mono) auto
    then show ?thesis by simp
  qed
  with m have h: "x1 - x0 \<le> 0.5 * s * ?m" "y1 - y0 \<le> 0.5 * s * ?m" "z1 - z0 \<le> 0.5 * s * ?m"
    by linarith+
  from assms(2,4) have "x0 \<le> cx" "cx \<le> x1" "y0 \<le> cy" "cy \<le> y1" "z0 \<le> cz" "cz \<le> z1"
    "x0 \<le> x" "x \<le> x1" "y0 \<le> y" "y \<le> y1" "z0 \<le> z" "z \<le> z1"
    by (simp_all add: in_bounds_def b c p)
  with h show ?thesis
    unfolding closure_box_def aabb_halfspaces_def max_extent_of_def b c p
    by simp
qed

text \<open>
  Claim C8 says that the box, a cube about the centroid of half-width
  \<open>0.5 * aabb_scale * max_extent\<close> in six half-spaces (\<open>closure_box_rows\<close>), strictly
  contains the input geometry. It does when \<open>aabb_scale >= 2\<close>
  (\<open>closure_box_contains_bounds\<close>, not strictly on the boundary), but not for every valid
  scale: the centroid need not be the centre of the bounding box. For the two cubes and
  \<open>aabb_scale = 1.1\<close> the box ends at \<open>623/65 < 10\<close>, and the vertex \<open>(10,10,10)\<close> of
  the mesh lies outside it.
\<close>

theorem closure_box_misses_geometry:
  "closure_box two_cubes (11 / 10) =
     [[1, 0, 0, - (623 / 65)], [- 1, 0, 0, - (92 / 65)],
      [0, 1, 0, - (623 / 65)], [0, - 1, 0, - (92 / 65)],
      [0, 0, 1, - (623 / 65)], [0, 0, - 1, - (92 / 65)]]
   \<and> in_bounds two_cubes (10, 10, 10)
   \<and> \<not> list_all (\<lambda>h. hs_holds h (10, 10, 10)) (closure_box two_cubes (11 / 10))"
  by (simp add: closure_box_def aabb_halfspaces_def max_extent_of_def two_cubes_def in_bounds_def)

section \<open>Feasibility of the seed\<close>






end
